theory Spec2Isabelle
  imports Complex_Main "HOL-Library.Word"
begin

section \<open>Strings of the source language\<close>

text \<open>
  The classifier \<open>detectSentiment\<close> of \<open>src/components/SentimentDemo.tsx\<close> takes a
  JavaScript string, that is a sequence of UTF-16 code units. A code point above
  U+FFFF occupies two code units (a surrogate pair). Numbers of the source are
  IEEE doubles; they are modelled by the reals, the emoji counters by naturals.
\<close>

type_synonym code_unit = "16 word"
type_synonym jsstring = "code_unit list"

definition lit :: "string \<Rightarrow> jsstring" where
  \<comment> \<open>an ASCII string literal of the source, as code units\<close>
  "lit s = map (\<lambda>c. of_nat (of_char c)) s"

definition isWhiteSpace :: "code_unit \<Rightarrow> bool" where
  \<comment> \<open>the class \<open>\s\<close> of regular expressions, which is also what \<open>trim\<close> strips:
      WhiteSpace and LineTerminator of ECMAScript\<close>
  "isWhiteSpace c \<longleftrightarrow>
     c = 0x09 \<or> c = 0x0A \<or> c = 0x0B \<or> c = 0x0C \<or> c = 0x0D \<or> c = 0x20 \<or>
     c = 0xA0 \<or> c = 0x1680 \<or> (0x2000 \<le> c \<and> c \<le> 0x200A) \<or>
     c = 0x2028 \<or> c = 0x2029 \<or> c = 0x202F \<or> c = 0x205F \<or> c = 0x3000 \<or>
     c = 0xFEFF"

definition trim :: "jsstring \<Rightarrow> jsstring" where
  "trim s = rev (dropWhile isWhiteSpace (rev (dropWhile isWhiteSpace s)))"

definition isHighSurrogate :: "code_unit \<Rightarrow> bool" where
  "isHighSurrogate c \<longleftrightarrow> 0xD800 \<le> c \<and> c \<le> 0xDBFF"

definition isLowSurrogate :: "code_unit \<Rightarrow> bool" where
  "isLowSurrogate c \<longleftrightarrow> 0xDC00 \<le> c \<and> c \<le> 0xDFFF"

fun Array_from :: "jsstring \<Rightarrow> jsstring list" where
  \<comment> \<open>\<open>Array.from(text)\<close>: the string iterator yields one string per code point,
      a well-formed surrogate pair as one string of two code units\<close>
  "Array_from [] = []"
| "Array_from [c] = [[c]]"
| "Array_from (c # d # r) =
     (if isHighSurrogate c \<and> isLowSurrogate d then [c, d] # Array_from r
      else [c] # Array_from (d # r))"

definition lowerUnit :: "code_unit \<Rightarrow> jsstring" where
  \<comment> \<open>\<open>toLowerCase\<close> on one code unit. Only the code units whose lower-case form
      contains an ASCII letter are mapped: A to Z, KELVIN SIGN (U+212A, to k) and
      LATIN CAPITAL LETTER I WITH DOT ABOVE (U+0130, to i followed by U+0307).
      The lower-case form of every other character has as many code units as the
      character and lies outside ASCII and outside white space, as the character
      itself does, so \<open>normalize\<close> below turns both into the same blanks.\<close>
  "lowerUnit c =
     (if 0x41 \<le> c \<and> c \<le> 0x5A then [c + 0x20]
      else if c = 0x212A then [0x6B]
      else if c = 0x0130 then [0x69, 0x0307]
      else [c])"

definition toLowerCase :: "jsstring \<Rightarrow> jsstring" where
  "toLowerCase s = concat (map lowerUnit s)"

definition keptUnit :: "code_unit \<Rightarrow> bool" where
  \<comment> \<open>the complement of the class \<open>[^a-z0-9'_\s]\<close>\<close>
  "keptUnit c \<longleftrightarrow>
     (0x61 \<le> c \<and> c \<le> 0x7A) \<or> (0x30 \<le> c \<and> c \<le> 0x39) \<or> c = 0x27 \<or> c = 0x5F \<or>
     isWhiteSpace c"

definition normalize :: "jsstring \<Rightarrow> jsstring" where
  \<comment> \<open>\<open>s.toLowerCase().replace(/[^a-z0-9'_\s]/g, " ")\<close>\<close>
  "normalize s = map (\<lambda>c. if keptUnit c then c else 0x20) (toLowerCase s)"

fun split_go :: "jsstring \<Rightarrow> bool \<Rightarrow> jsstring \<Rightarrow> jsstring list" where
  \<comment> \<open>\<open>cur\<close> is the piece being read (reversed), \<open>sep\<close> says that the scan is
      inside a run of white space\<close>
  "split_go cur sep [] = [rev cur]"
| "split_go cur sep (c # r) =
     (if isWhiteSpace c then (if sep then split_go [] True r else rev cur # split_go [] True r)
      else split_go (c # cur) False r)"

definition split_ws :: "jsstring \<Rightarrow> jsstring list" where
  \<comment> \<open>\<open>s.split(/\s+/)\<close>, with the empty pieces at both ends that it produces\<close>
  "split_ws s = split_go [] False s"

definition tokens :: "jsstring \<Rightarrow> jsstring list" where
  \<comment> \<open>\<open>normalize(text).split(/\s+/).filter(Boolean)\<close>\<close>
  "tokens text = filter (\<lambda>t. t \<noteq> []) (split_ws (normalize text))"

section \<open>The fixed sets\<close>

definition positiveEmojis :: "jsstring list" where
  "positiveEmojis =
     [[0xD83D, 0xDE0A], [0xD83D, 0xDE03], [0xD83D, 0xDE04], [0xD83D, 0xDE01],
      [0xD83D, 0xDE42], [0xD83D, 0xDE00], [0xD83D, 0xDE0D], [0xD83E, 0xDD70],
      [0xD83D, 0xDE18], [0xD83E, 0xDD17], [0xD83C, 0xDF89], [0xD83D, 0xDC4D],
      [0x2764, 0xFE0F], [0xD83D, 0xDC96], [0x2728], [0xD83C, 0xDF1F],
      [0xD83D, 0xDCAF]]"

definition negativeEmojis :: "jsstring list" where
  "negativeEmojis =
     [[0xD83D, 0xDE22], [0xD83D, 0xDE2D], [0xD83D, 0xDE1E], [0xD83D, 0xDE14],
      [0x2639, 0xFE0F], [0xD83D, 0xDE41], [0xD83D, 0xDE23], [0xD83D, 0xDE16],
      [0xD83D, 0xDE2B], [0xD83D, 0xDE29], [0xD83D, 0xDE24], [0xD83D, 0xDE20],
      [0xD83D, 0xDE21], [0xD83D, 0xDC94], [0xD83D, 0xDC4E]]"

definition neutralEmojis :: "jsstring list" where
  "neutralEmojis =
     [[0xD83D, 0xDE10], [0xD83D, 0xDE11], [0xD83E, 0xDD14], [0xD83D, 0xDE36],
      [0xD83D, 0xDE44], [0xD83E, 0xDD37]]"

definition positiveWords :: "jsstring list" where
  "positiveWords = map lit
     [''good'', ''great'', ''awesome'', ''amazing'', ''love'', ''loved'', ''like'',
      ''liked'', ''fantastic'', ''excellent'', ''best'', ''nice'', ''happy'', ''joy'',
      ''glad'', ''wonderful'', ''helpful'', ''brilliant'', ''recommend'', ''cool'']"

definition negativeWords :: "jsstring list" where
  "negativeWords = map lit
     [''bad'', ''terrible'', ''awful'', ''hate'', ''hated'', ''dislike'', ''disliked'',
      ''worst'', ''poor'', ''sad'', ''angry'', ''disappointed'', ''disappointing'',
      ''broken'', ''bug'', ''spam'', ''boring'', ''annoying'', ''trash'', ''waste'']"

definition negations :: "jsstring list" where
  "negations = map lit
     [''not'', ''never'', ''no'', ''dont'', ''doesnt'', ''didnt'', ''isnt'', ''wasnt'',
      ''cant'', ''cannot'', ''wont'', [CHR ''w'', CHR ''o'', CHR ''n'', CHR 0x27, CHR ''t'']]"

definition intensifiers :: "jsstring list" where
  "intensifiers = map lit
     [''very'', ''really'', ''extremely'', ''super'', ''totally'', ''completely'',
      ''absolutely'', ''so'']"

section \<open>The emoji pass\<close>

record tally =
  posEmoji :: nat
  negEmoji :: nat
  neuEmoji :: nat

definition count_step :: "jsstring \<Rightarrow> tally \<Rightarrow> tally" where
  \<comment> \<open>the body of the loop over \<open>Array.from(text)\<close>\<close>
  "count_step ch t =
     (if ch \<in> set positiveEmojis then t\<lparr>posEmoji := posEmoji t + 1\<rparr>
      else if ch \<in> set negativeEmojis then t\<lparr>negEmoji := negEmoji t + 1\<rparr>
      else if ch \<in> set neutralEmojis then t\<lparr>neuEmoji := neuEmoji t + 1\<rparr>
      else t)"

definition countEmoji :: "jsstring \<Rightarrow> tally" where
  "countEmoji text =
     fold count_step (Array_from text) \<lparr>posEmoji = 0, negEmoji = 0, neuEmoji = 0\<rparr>"

definition totalEmoji :: "tally \<Rightarrow> nat" where
  "totalEmoji t = posEmoji t + negEmoji t + neuEmoji t"

section \<open>The word pass\<close>

definition weight :: "jsstring list \<Rightarrow> nat \<Rightarrow> real" where
  \<comment> \<open>what the loop body adds to \<open>score\<close> at index \<open>i\<close>\<close>
  "weight toks i =
     (let w = toks ! i in
      if w \<in> set positiveWords then
        (let weight = 1;
             weight = (if i > 0 \<and> toks ! (i - 1) \<in> set intensifiers then weight * 1.6 else weight);
             weight = (if i > 0 \<and> toks ! (i - 1) \<in> set negations then weight * (- 1) else weight)
         in weight)
      else if w \<in> set negativeWords then
        (let weight = - 1;
             weight = (if i > 0 \<and> toks ! (i - 1) \<in> set intensifiers then weight * 1.6 else weight);
             weight = (if i > 0 \<and> toks ! (i - 1) \<in> set negations then weight * (- 1) else weight)
         in weight)
      else 0)"

definition wordScore :: "jsstring list \<Rightarrow> real" where
  \<comment> \<open>\<open>for (let i = 0; i < tokens.length; i++) score += weight\<close>\<close>
  "wordScore toks = fold (\<lambda>i score. score + weight toks i) [0 ..< length toks] 0"

datatype sentiment = Positive | Neutral | Negative

record result =
  sentiment :: sentiment
  confidence :: real

definition wordSentiment :: "real \<Rightarrow> sentiment" where
  "wordSentiment score =
     (if score > 0.5 then Positive else if score < - 0.5 then Negative else Neutral)"

definition wordConfidence :: "real \<Rightarrow> nat \<Rightarrow> real" where
  \<comment> \<open>the second argument is \<open>tokens.length\<close>\<close>
  "wordConfidence score n =
     min 0.95 (0.6 + min 1 (\<bar>score\<bar> / max 1 (sqrt (real n))) * 0.35)"

section \<open>Combining the two signals\<close>

definition emojiSentiment :: "tally \<Rightarrow> sentiment" where
  "emojiSentiment t =
     (if posEmoji t > negEmoji t \<and> posEmoji t > neuEmoji t then Positive
      else if negEmoji t > posEmoji t \<and> negEmoji t > neuEmoji t then Negative
      else Neutral)"

definition emojiConfidenceBase :: "tally \<Rightarrow> real" where
  "emojiConfidenceBase t = 0.75 + min 0.2 (real (totalEmoji t) / 10)"

definition combinedConfidence :: "tally \<Rightarrow> real \<Rightarrow> real" where
  \<comment> \<open>the second argument is \<open>wordConfidence\<close>\<close>
  "combinedConfidence t wc = min 0.98 (emojiConfidenceBase t * 0.75 + wc * 0.25)"

definition detectSentiment :: "jsstring \<Rightarrow> result option" where
  "detectSentiment text =
     (if text = [] \<or> trim text = [] then None
      else
        let t = countEmoji text;
            toks = tokens text;
            score = wordScore toks;
            ws = wordSentiment score;
            wc = wordConfidence score (length toks)
        in if totalEmoji t > 0 then
             (if ws \<noteq> Neutral \<and> ws = emojiSentiment t then
                Some \<lparr>sentiment = emojiSentiment t,
                      confidence = min 0.99 (combinedConfidence t wc + 0.03)\<rparr>
              else if \<bar>int (posEmoji t) - int (negEmoji t)\<bar> \<ge> 1 then
                Some \<lparr>sentiment = emojiSentiment t, confidence = combinedConfidence t wc\<rparr>
              else Some \<lparr>sentiment = ws, confidence = wc\<rparr>)
           else if length toks = 0 then None
           else Some \<lparr>sentiment = ws, confidence = wc\<rparr>)"

section \<open>Notions used to state the properties\<close>

text \<open>
  The inputs that the properties name: a positive and a negative emoji followed by
  a negative word, the two emoji alone, a positive emoji with a positive word, and
  three positive emoji with a negative word.
\<close>

definition ex_tie :: jsstring where
  "ex_tie = [0xD83D, 0xDE0A] @ lit '' '' @ [0xD83D, 0xDE22] @ lit '' terrible''"

definition ex_tie_bare :: jsstring where
  "ex_tie_bare = [0xD83D, 0xDE0A] @ lit '' '' @ [0xD83D, 0xDE22]"

definition ex_agree :: jsstring where
  "ex_agree = [0xD83D, 0xDE0A] @ lit '' great''"

definition ex_dominant :: jsstring where
  "ex_dominant = [0xD83D, 0xDE0A, 0xD83D, 0xDE0A, 0xD83D, 0xDE0A] @ lit '' terrible''"

text \<open>
  The amount added to the score for a token, as a function of the token and of the one
  before it (\<open>None\<close> at index 0), and the score of a list of tokens by recursion on the
  list. Both are shown below to agree with \<open>weight\<close> and \<open>wordScore\<close>.
\<close>

fun contribution :: "jsstring option \<Rightarrow> jsstring \<Rightarrow> real" where
  "contribution prev w =
     (let base = (if w \<in> set positiveWords then 1 else if w \<in> set negativeWords then - 1 else 0);
          scaled = (if prev \<in> Some ` set intensifiers then base * 1.6 else base)
      in if prev \<in> Some ` set negations then scaled * (- 1) else scaled)"

fun scoreFrom :: "jsstring option \<Rightarrow> jsstring list \<Rightarrow> real" where
  "scoreFrom prev [] = 0"
| "scoreFrom prev (w # ws) = contribution prev w + scoreFrom (Some w) ws"

text \<open>
  \<open>addsPositive ts ts'\<close>: the token list \<open>ts'\<close> is \<open>ts\<close> with occurrences of words of
  the positive lexicon put in, at any places and in any number.
\<close>

inductive addsPositive :: "jsstring list \<Rightarrow> jsstring list \<Rightarrow> bool" where
  same: "addsPositive ts ts"
| ins: "addsPositive ts (xs @ ys) \<Longrightarrow> q \<in> set positiveWords \<Longrightarrow> addsPositive ts (xs @ q # ys)"

section \<open>Auxiliary facts\<close>

lemmas string_defs = lit_def isWhiteSpace_def trim_def isHighSurrogate_def isLowSurrogate_def
  lowerUnit_def toLowerCase_def keptUnit_def normalize_def split_ws_def tokens_def

lemmas emoji_defs = positiveEmojis_def negativeEmojis_def neutralEmojis_def

lemmas lexicon_defs = positiveWords_def negativeWords_def negations_def intensifiers_def

subsection \<open>Blank input\<close>

lemma ws_not_high: "isWhiteSpace c \<Longrightarrow> \<not> isHighSurrogate c"
  unfolding isWhiteSpace_def isHighSurrogate_def
  by (auto simp: word_le_nat_alt)

lemma trim_empty_iff: "trim s = [] \<longleftrightarrow> (\<forall>c \<in> set s. isWhiteSpace c)"
proof
  assume "trim s = []"
  then have "\<forall>c \<in> set (dropWhile isWhiteSpace s). isWhiteSpace c"
    by (simp add: trim_def dropWhile_eq_Nil_conv)
  then have "dropWhile isWhiteSpace s = []"
    using hd_dropWhile [of isWhiteSpace s] hd_in_set [of "dropWhile isWhiteSpace s"] by blast
  then show "\<forall>c \<in> set s. isWhiteSpace c"
    by (simp add: dropWhile_eq_Nil_conv)
next
  assume "\<forall>c \<in> set s. isWhiteSpace c"
  then show "trim s = []"
    by (auto simp: trim_def dest: set_dropWhileD)
qed

lemma blank_chunks:
  "\<forall>c \<in> set s. isWhiteSpace c \<Longrightarrow> Array_from s = map (\<lambda>c. [c]) s"
  by (induction s rule: Array_from.induct) (auto dest: ws_not_high)

lemma ws_not_counted: "isWhiteSpace c \<Longrightarrow> count_step [c] t = t"
  by (auto simp: count_step_def emoji_defs isWhiteSpace_def)

lemma blank_fold:
  "\<forall>c \<in> set s. isWhiteSpace c \<Longrightarrow> fold count_step (map (\<lambda>c. [c]) s) t = t"
  by (induction s arbitrary: t) (simp_all add: ws_not_counted)

lemma blank_count:
  "\<forall>c \<in> set s. isWhiteSpace c \<Longrightarrow> totalEmoji (countEmoji s) = 0"
  by (simp add: countEmoji_def blank_chunks blank_fold totalEmoji_def)

lemma ws_lower: "isWhiteSpace c \<Longrightarrow> lowerUnit c = [c]"
  by (auto simp: lowerUnit_def isWhiteSpace_def word_le_nat_alt)

lemma blank_normalize:
  "\<forall>c \<in> set s. isWhiteSpace c \<Longrightarrow> normalize s = s"
  by (induction s) (simp_all add: normalize_def toLowerCase_def ws_lower keptUnit_def)

lemma blank_split:
  "\<forall>c \<in> set s. isWhiteSpace c \<Longrightarrow> set (split_go cur sep s) \<subseteq> {rev cur, []}"
  by (induction s arbitrary: cur sep) auto

lemma blank_tokens:
  assumes "\<forall>c \<in> set s. isWhiteSpace c"
  shows "tokens s = []"
proof -
  have "set (split_ws s) \<subseteq> {[]}"
    using blank_split [OF assms, of "[]" False] by (simp add: split_ws_def)
  then show ?thesis
    by (auto simp: tokens_def blank_normalize [OF assms] filter_empty_conv)
qed

text \<open>
  The result is absent exactly when no emoji was counted and there is no token; the
  test on \<open>text.trim()\<close> rejects nothing that the last test would let through.
\<close>

lemma detectSentiment_None_iff:
  "detectSentiment text = None \<longleftrightarrow> totalEmoji (countEmoji text) = 0 \<and> tokens text = []"
proof (cases "trim text = []")
  case True
  then have "\<forall>c \<in> set text. isWhiteSpace c" by (simp add: trim_empty_iff)
  then show ?thesis using True
    by (simp add: detectSentiment_def blank_count blank_tokens)
next
  case False
  then have "text \<noteq> []" by (auto simp: trim_def)
  with False show ?thesis
    by (simp add: detectSentiment_def Let_def)
qed

lemma emoji_not_blank:
  "totalEmoji (countEmoji text) > 0 \<Longrightarrow> text \<noteq> [] \<and> trim text \<noteq> []"
proof -
  assume "totalEmoji (countEmoji text) > 0"
  then have "\<not> (\<forall>c \<in> set text. isWhiteSpace c)"
    using blank_count [of "text"] by fastforce
  then have "trim text \<noteq> []" by (simp only: trim_empty_iff not_False_eq_True)
  moreover from this have "text \<noteq> []" by (auto simp: trim_def)
  ultimately show ?thesis by simp
qed

subsection \<open>The pieces of the code-point iteration\<close>

lemma chunk_shape:
  "ch \<in> set (Array_from s) \<Longrightarrow>
     (\<exists>c. ch = [c]) \<or> (\<exists>c d. ch = [c, d] \<and> isHighSurrogate c \<and> isLowSurrogate d)"
  by (induction s rule: Array_from.induct) (auto split: if_splits)

lemma tokens_heart: "tokens [0x2764, 0xFE0F] = []"
  by (simp add: string_defs)

lemma count_heart:
  "countEmoji [0x2764, 0xFE0F] = \<lparr>posEmoji = 0, negEmoji = 0, neuEmoji = 0\<rparr>"
  by (simp add: countEmoji_def count_step_def emoji_defs isHighSurrogate_def isLowSurrogate_def)

lemma count_frown:
  "countEmoji [0x2639, 0xFE0F] = \<lparr>posEmoji = 0, negEmoji = 0, neuEmoji = 0\<rparr>"
  by (simp add: countEmoji_def count_step_def emoji_defs isHighSurrogate_def isLowSurrogate_def)

lemma detect_heart: "detectSentiment [0x2764, 0xFE0F] = None"
  by (simp add: detectSentiment_None_iff tokens_heart count_heart totalEmoji_def)

subsection \<open>Bounds on the confidences\<close>

lemma wordConfidence_bounds:
  "0.6 \<le> wordConfidence score n \<and> wordConfidence score n \<le> 0.95"
proof -
  have "0 \<le> min 1 (\<bar>score\<bar> / max 1 (sqrt (real n)))" by simp
  then have "0 \<le> min 1 (\<bar>score\<bar> / max 1 (sqrt (real n))) * 0.35" by simp
  then show ?thesis by (simp add: wordConfidence_def)
qed

lemma emojiConfidenceBase_bounds:
  "0.75 \<le> emojiConfidenceBase t \<and> emojiConfidenceBase t \<le> 0.95"
  by (simp add: emojiConfidenceBase_def min_def)

lemma combinedConfidence_bounds:
  assumes "0.6 \<le> wc"
  shows "0.7125 \<le> combinedConfidence t wc \<and> combinedConfidence t wc \<le> 0.98"
  using emojiConfidenceBase_bounds [of t] assms
  by (simp add: combinedConfidence_def min_def)

lemma detect_confidence_cases:
  assumes "detectSentiment text = Some r"
  defines "wc \<equiv> wordConfidence (wordScore (tokens text)) (length (tokens text))"
  shows "(totalEmoji (countEmoji text) = 0 \<and> confidence r = wc) \<or>
         (totalEmoji (countEmoji text) > 0 \<and>
            (confidence r = wc \<or> confidence r = combinedConfidence (countEmoji text) wc \<or>
             confidence r = min 0.99 (combinedConfidence (countEmoji text) wc + 0.03)))"
  using assms(1) unfolding detectSentiment_def Let_def wc_def
  by (auto split: if_splits)

subsection \<open>The combiner when an emoji was counted\<close>

lemma detect_with_emoji:
  assumes "totalEmoji (countEmoji text) > 0"
  shows "detectSentiment text =
     (let t = countEmoji text; toks = tokens text; score = wordScore toks;
          ws = wordSentiment score; wc = wordConfidence score (length toks)
      in if ws \<noteq> Neutral \<and> ws = emojiSentiment t then
           Some \<lparr>sentiment = emojiSentiment t,
                 confidence = min 0.99 (combinedConfidence t wc + 0.03)\<rparr>
         else if \<bar>int (posEmoji t) - int (negEmoji t)\<bar> \<ge> 1 then
           Some \<lparr>sentiment = emojiSentiment t, confidence = combinedConfidence t wc\<rparr>
         else Some \<lparr>sentiment = ws, confidence = wc\<rparr>)"
  using emoji_not_blank [OF assms] assms by (simp add: detectSentiment_def Let_def)

subsection \<open>The named inputs, evaluated\<close>

lemmas count_defs = countEmoji_def count_step_def emoji_defs isHighSurrogate_def
  isLowSurrogate_def lit_def

lemmas score_defs = wordScore_def weight_def lexicon_defs lit_def

lemma ex_tie_tokens: "tokens ex_tie = [lit ''terrible'']"
  by (simp add: ex_tie_def string_defs)

lemma ex_tie_count: "countEmoji ex_tie = \<lparr>posEmoji = 1, negEmoji = 1, neuEmoji = 0\<rparr>"
  by (simp add: ex_tie_def count_defs)

lemma ex_tie_bare_tokens: "tokens ex_tie_bare = []"
  by (simp add: ex_tie_bare_def string_defs)

lemma ex_tie_bare_count:
  "countEmoji ex_tie_bare = \<lparr>posEmoji = 1, negEmoji = 1, neuEmoji = 0\<rparr>"
  by (simp add: ex_tie_bare_def count_defs)

lemma ex_agree_tokens: "tokens ex_agree = [lit ''great'']"
  by (simp add: ex_agree_def string_defs)

lemma ex_agree_count: "countEmoji ex_agree = \<lparr>posEmoji = 1, negEmoji = 0, neuEmoji = 0\<rparr>"
  by (simp add: ex_agree_def count_defs)

lemma ex_dominant_tokens: "tokens ex_dominant = [lit ''terrible'']"
  by (simp add: ex_dominant_def string_defs)

lemma ex_dominant_count:
  "countEmoji ex_dominant = \<lparr>posEmoji = 3, negEmoji = 0, neuEmoji = 0\<rparr>"
  by (simp add: ex_dominant_def count_defs)

lemma tokens_good: "tokens (lit ''good'') = [lit ''good'']"
  by (simp add: string_defs)

lemma tokens_not_good: "tokens (lit ''not good'') = [lit ''not'', lit ''good'']"
  by (simp add: string_defs)

lemma tokens_not_bad: "tokens (lit ''not bad'') = [lit ''not'', lit ''bad'']"
  by (simp add: string_defs)

lemma tokens_very_good: "tokens (lit ''very good'') = [lit ''very'', lit ''good'']"
  by (simp add: string_defs)

lemma tokens_not_very_good:
  "tokens (lit ''not very good'') = [lit ''not'', lit ''very'', lit ''good'']"
  by (simp add: string_defs)

lemma tokens_very_bad: "tokens (lit ''very bad'') = [lit ''very'', lit ''bad'']"
  by (simp add: string_defs)

lemma tokens_very_good_bad:
  "tokens (lit ''very good bad'') = [lit ''very'', lit ''good'', lit ''bad'']"
  by (simp add: string_defs)

lemma score_empty: "wordScore [] = 0"
  by (simp add: wordScore_def)

lemma score_great: "wordScore [lit ''great''] = 1"
  by (simp add: score_defs)

lemma score_terrible: "wordScore [lit ''terrible''] = - 1"
  by (simp add: score_defs)

lemma score_good: "wordScore [lit ''good''] = 1"
  by (simp add: score_defs)

lemma score_not_good: "wordScore [lit ''not'', lit ''good''] = - 1"
  by (simp add: score_defs)

lemma score_not_bad: "wordScore [lit ''not'', lit ''bad''] = 1"
  by (simp add: score_defs)

lemma score_very_good: "wordScore [lit ''very'', lit ''good''] = 1.6"
  by (simp add: score_defs)

lemma score_not_very_good: "wordScore [lit ''not'', lit ''very'', lit ''good''] = 1.6"
  by (simp add: score_defs upt_rec)

lemma score_very_bad: "wordScore [lit ''very'', lit ''bad''] = - 1.6"
  by (simp add: score_defs)

lemma score_very_good_bad: "wordScore [lit ''very'', lit ''good'', lit ''bad''] = 0.6"
  by (simp add: score_defs upt_rec)

lemma wordConfidence_values:
  "wordConfidence 1 (Suc 0) = 0.95" "wordConfidence (- 1) (Suc 0) = 0.95"
  "wordConfidence 0 0 = 0.6"
  by (simp_all add: wordConfidence_def)

subsection \<open>The lexicons are disjoint\<close>

lemma lexicons_disjoint:
  "list_all (\<lambda>w. w \<notin> set intensifiers) negations"
  "list_all (\<lambda>w. w \<notin> set negativeWords) positiveWords"
  "list_all (\<lambda>w. w \<notin> set intensifiers \<and> w \<notin> set negations) positiveWords"
  by (simp_all add: lexicon_defs lit_def)

lemma negation_not_intensifier: "w \<in> set negations \<Longrightarrow> w \<notin> set intensifiers"
  using lexicons_disjoint(1) by (simp only: list_all_iff) blast

lemma positive_not_negative: "w \<in> set positiveWords \<Longrightarrow> w \<notin> set negativeWords"
  using lexicons_disjoint(2) by (simp only: list_all_iff) blast

lemma positive_not_modifier:
  "w \<in> set positiveWords \<Longrightarrow> w \<notin> set intensifiers \<and> w \<notin> set negations"
  using lexicons_disjoint(3) by (simp only: list_all_iff) blast

subsection \<open>The score by recursion on the tokens\<close>

lemma weight_contribution:
  "weight toks i = contribution (if i > 0 then Some (toks ! (i - 1)) else None) (toks ! i)"
  by (auto simp: weight_def Let_def)

lemma fold_add_sum: "fold (\<lambda>i (s::real). s + f i) [0 ..< n] a = a + (\<Sum>i<n. f i)"
  by (induction n arbitrary: a) simp_all

lemma sum_scoreFrom:
  "(\<Sum>i<length ws. contribution (if i > 0 then Some (ws ! (i - 1)) else p) (ws ! i))
     = scoreFrom p ws"
proof (induction ws arbitrary: p)
  case Nil
  show ?case by simp
next
  case (Cons w ws)
  have "(\<Sum>i<length (w # ws).
          contribution (if i > 0 then Some ((w # ws) ! (i - 1)) else p) ((w # ws) ! i))
      = contribution p w + (\<Sum>i<length ws. contribution (Some ((w # ws) ! i)) (ws ! i))"
    by (simp only: length_Cons sum.lessThan_Suc_shift) (simp del: contribution.simps)
  also have "(\<Sum>i<length ws. contribution (Some ((w # ws) ! i)) (ws ! i))
      = (\<Sum>i<length ws. contribution (if i > 0 then Some (ws ! (i - 1)) else Some w) (ws ! i))"
    by (rule sum.cong) (auto simp: nth_Cons' simp del: contribution.simps)
  finally show ?case using Cons.IH [of "Some w"] by (simp del: contribution.simps)
qed

lemma wordScore_scoreFrom: "wordScore toks = scoreFrom None toks"
  unfolding wordScore_def fold_add_sum weight_contribution
  using sum_scoreFrom [of toks None] by simp

lemma scoreFrom_append:
  "scoreFrom p (xs @ ys) =
     scoreFrom p xs + scoreFrom (if xs = [] then p else Some (last xs)) ys"
  by (induction xs arbitrary: p) (simp_all del: contribution.simps)

lemma contribution_positive:
  assumes "q \<in> set positiveWords" "p \<notin> Some ` set negations"
  shows "1 \<le> contribution p q"
  using assms by (simp add: Let_def)

lemma contribution_after_positive:
  assumes "q \<in> set positiveWords" "p \<notin> Some ` set negations"
  shows "contribution p y \<le> contribution p q + contribution (Some q) y"
proof -
  have q: "Some q \<notin> Some ` set intensifiers" "Some q \<notin> Some ` set negations"
    using positive_not_modifier [OF assms(1)] by auto
  show ?thesis
    using assms q by (simp add: Let_def)
qed

lemma scoreFrom_insert:
  assumes "q \<in> set positiveWords" "p \<notin> Some ` set negations"
  shows "scoreFrom p ys \<le> contribution p q + scoreFrom (Some q) ys"
proof (cases ys)
  case Nil
  then show ?thesis using contribution_positive [OF assms] by simp
next
  case (Cons y ys')
  then show ?thesis using contribution_after_positive [OF assms, of y]
    by (simp del: contribution.simps)
qed

lemma wordScore_insert:
  assumes "q \<in> set positiveWords" "\<forall>w \<in> set (xs @ ys). w \<notin> set negations"
  shows "wordScore (xs @ ys) \<le> wordScore (xs @ q # ys)"
proof -
  define p where "p = (if xs = [] then None else Some (last xs))"
  have "p \<notin> Some ` set negations"
    using assms(2) by (auto simp: p_def)
  from scoreFrom_insert [OF assms(1) this, of ys] show ?thesis
    by (simp add: wordScore_scoreFrom scoreFrom_append p_def del: contribution.simps)
qed

lemma addsPositive_no_negation:
  "addsPositive ts ts' \<Longrightarrow> \<forall>w \<in> set ts. w \<notin> set negations
     \<Longrightarrow> \<forall>w \<in> set ts'. w \<notin> set negations"
  by (induction rule: addsPositive.induct) (auto dest: positive_not_modifier)

section \<open>Properties of the classifier\<close>

text \<open>
  C1. The claim promises a present result for every input that contains an emoji of the
  three fixed sets, and names the input made of the heart emoji alone. That input is the
  entry U+2764 U+FE0F of the positive set, it is not blank, and the classifier returns
  no result for it.
\<close>

theorem heart_alone_has_no_result:
  "[0x2764, 0xFE0F] \<in> set positiveEmojis \<and>
   trim [0x2764, 0xFE0F] \<noteq> [] \<and>
   detectSentiment [0x2764, 0xFE0F] = None"
  by (simp add: detect_heart) (simp add: positiveEmojis_def trim_def isWhiteSpace_def)

text \<open>
  C2. Whenever a result is returned, its confidence lies between 0 and 0.99; when
  no emoji was counted, so that the result is the word-based one, it lies between 0.6
  and 0.95.
\<close>

theorem confidence_range:
  "(detectSentiment text = Some r \<longrightarrow> 0 \<le> confidence r \<and> confidence r \<le> 0.99) \<and>
   (detectSentiment text = Some r \<and> totalEmoji (countEmoji text) = 0 \<longrightarrow>
      0.6 \<le> confidence r \<and> confidence r \<le> 0.95)"
proof -
  define wc where "wc = wordConfidence (wordScore (tokens text)) (length (tokens text))"
  define cc where "cc = combinedConfidence (countEmoji text) wc"
  have wc: "0.6 \<le> wc" "wc \<le> 0.95"
    using wordConfidence_bounds [of "wordScore (tokens text)" "length (tokens text)"]
    by (simp_all add: wc_def)
  have cc: "0.7125 \<le> cc" "cc \<le> 0.98"
    using combinedConfidence_bounds [OF wc(1), of "countEmoji text"] by (simp_all add: cc_def)
  have bonus: "0 \<le> min 0.99 (cc + 0.03)" "min 0.99 (cc + 0.03) \<le> 0.99"
    using cc by (simp_all add: min_def)
  show ?thesis
  proof (intro conjI impI)
    assume "detectSentiment text = Some r"
    from detect_confidence_cases [OF this]
    have "confidence r = wc \<or> confidence r = cc \<or> confidence r = min 0.99 (cc + 0.03)"
      unfolding wc_def cc_def by blast
    then show "0 \<le> confidence r" using wc cc bonus by auto
  next
    assume "detectSentiment text = Some r"
    from detect_confidence_cases [OF this]
    have "confidence r = wc \<or> confidence r = cc \<or> confidence r = min 0.99 (cc + 0.03)"
      unfolding wc_def cc_def by blast
    then show "confidence r \<le> 0.99" using wc cc bonus by auto
  next
    assume a: "detectSentiment text = Some r \<and> totalEmoji (countEmoji text) = 0"
    then have "confidence r = wc"
      using detect_confidence_cases [of "text" r] unfolding wc_def by auto
    then show "0.6 \<le> confidence r" using wc by simp
  next
    assume a: "detectSentiment text = Some r \<and> totalEmoji (countEmoji text) = 0"
    then have "confidence r = wc"
      using detect_confidence_cases [of "text" r] unfolding wc_def by auto
    then show "confidence r \<le> 0.95" using wc by simp
  qed
qed

theorem confidence_range_witness:
  "detectSentiment ex_agree = Some \<lparr>sentiment = Positive, confidence = 0.905\<rparr> \<and>
   (0::real) \<le> 0.905 \<and> (0.905::real) \<le> 0.99 \<and>
   detectSentiment (lit ''good'') = Some \<lparr>sentiment = Positive, confidence = 0.95\<rparr> \<and>
   totalEmoji (countEmoji (lit ''good'')) = 0 \<and>
   (0.6::real) \<le> 0.95 \<and> (0.95::real) \<le> 0.95"
proof -
  have a: "detectSentiment ex_agree = Some \<lparr>sentiment = Positive, confidence = 0.905\<rparr>"
    by (simp add: detect_with_emoji ex_agree_count ex_agree_tokens score_great totalEmoji_def
        wordSentiment_def emojiSentiment_def wordConfidence_values combinedConfidence_def
        emojiConfidenceBase_def)
  have n: "totalEmoji (countEmoji (lit ''good'')) = 0"
    by (simp add: count_defs totalEmoji_def)
  have g: "detectSentiment (lit ''good'') = Some \<lparr>sentiment = Positive, confidence = 0.95\<rparr>"
    unfolding detectSentiment_def Let_def n tokens_good score_good
    by (simp add: trim_def isWhiteSpace_def lit_def wordSentiment_def wordConfidence_values)
  from confidence_range [of ex_agree "\<lparr>sentiment = Positive, confidence = 0.905\<rparr>"]
       confidence_range [of "lit ''good''" "\<lparr>sentiment = Positive, confidence = 0.95\<rparr>"]
       a n g
  show ?thesis by simp
qed

text \<open>
  C3. When an emoji was counted and the positive and negative counts are equal, the
  dominant emoji label is neutral, so the word label either is neutral or disagrees
  with it, and the result is the word label with the word confidence. The input of a
  positive emoji, a negative emoji and the word "terrible" gives the label negative
  with the word confidence. (For the two emoji alone the word confidence 0.6 that is
  returned differs from the combined confidence 0.8625.)
\<close>

theorem tie_falls_back_to_lexical:
  "(totalEmoji (countEmoji text) > 0 \<and>
      posEmoji (countEmoji text) = negEmoji (countEmoji text) \<longrightarrow>
      emojiSentiment (countEmoji text) = Neutral \<and>
      detectSentiment text =
        Some \<lparr>sentiment = wordSentiment (wordScore (tokens text)),
              confidence = wordConfidence (wordScore (tokens text)) (length (tokens text))\<rparr>) \<and>
   wordSentiment (wordScore (tokens ex_tie)) = Negative \<and>
   detectSentiment ex_tie =
     Some \<lparr>sentiment = Negative,
           confidence = wordConfidence (wordScore (tokens ex_tie)) (length (tokens ex_tie))\<rparr>"
proof -
  have gen: "emojiSentiment (countEmoji s) = Neutral \<and>
      detectSentiment s =
        Some \<lparr>sentiment = wordSentiment (wordScore (tokens s)),
              confidence = wordConfidence (wordScore (tokens s)) (length (tokens s))\<rparr>"
    if "totalEmoji (countEmoji s) > 0" "posEmoji (countEmoji s) = negEmoji (countEmoji s)" for s
  proof -
    have n: "emojiSentiment (countEmoji s) = Neutral"
      using that(2) by (simp add: emojiSentiment_def)
    show ?thesis
      using that(2) n by (simp add: detect_with_emoji [OF that(1)] Let_def)
  qed
  have t: "totalEmoji (countEmoji ex_tie) > 0"
      "posEmoji (countEmoji ex_tie) = negEmoji (countEmoji ex_tie)"
    by (simp_all add: ex_tie_count totalEmoji_def)
  have "wordSentiment (wordScore (tokens ex_tie)) = Negative"
    by (simp add: ex_tie_tokens score_terrible wordSentiment_def)
  with gen [OF t] gen [of "text"] show ?thesis by simp
qed

theorem tie_falls_back_to_lexical_witness:
  "totalEmoji (countEmoji ex_tie) > 0 \<and>
   posEmoji (countEmoji ex_tie) = negEmoji (countEmoji ex_tie) \<and>
   detectSentiment ex_tie = Some \<lparr>sentiment = Negative, confidence = 0.95\<rparr> \<and>
   totalEmoji (countEmoji ex_tie_bare) > 0 \<and>
   posEmoji (countEmoji ex_tie_bare) = negEmoji (countEmoji ex_tie_bare) \<and>
   detectSentiment ex_tie_bare = Some \<lparr>sentiment = Neutral, confidence = 0.6\<rparr> \<and>
   combinedConfidence (countEmoji ex_tie_bare) 0.6 = 0.8625"
proof -
  have c: "combinedConfidence (countEmoji ex_tie_bare) 0.6 = 0.8625"
    by (simp add: ex_tie_bare_count combinedConfidence_def emojiConfidenceBase_def
        totalEmoji_def)
  from tie_falls_back_to_lexical [of ex_tie] tie_falls_back_to_lexical [of ex_tie_bare] c
  show ?thesis
    by (simp add: ex_tie_count ex_tie_tokens score_terrible ex_tie_bare_count
        ex_tie_bare_tokens score_empty totalEmoji_def wordConfidence_values wordSentiment_def)
qed

text \<open>
  C4. When an emoji was counted and the word label is not neutral and equals the
  dominant emoji label, the result is that label with the confidence
  \<open>min 0.99 (combined + 0.03)\<close>, which is strictly above the combined confidence.
  For a positive emoji followed by "great" the combined confidence is 0.875 and the
  result is positive with \<open>min 0.99 (0.875 + 0.03)\<close>.
\<close>

theorem agreement_bonus:
  "(totalEmoji (countEmoji text) > 0 \<and>
      wordSentiment (wordScore (tokens text)) \<noteq> Neutral \<and>
      wordSentiment (wordScore (tokens text)) = emojiSentiment (countEmoji text) \<longrightarrow>
      detectSentiment text =
        Some \<lparr>sentiment = emojiSentiment (countEmoji text),
              confidence = min 0.99 (combinedConfidence (countEmoji text)
                (wordConfidence (wordScore (tokens text)) (length (tokens text))) + 0.03)\<rparr> \<and>
      combinedConfidence (countEmoji text)
          (wordConfidence (wordScore (tokens text)) (length (tokens text)))
        < min 0.99 (combinedConfidence (countEmoji text)
            (wordConfidence (wordScore (tokens text)) (length (tokens text))) + 0.03)) \<and>
   combinedConfidence (countEmoji ex_agree)
       (wordConfidence (wordScore (tokens ex_agree)) (length (tokens ex_agree))) = 0.875 \<and>
   detectSentiment ex_agree =
     Some \<lparr>sentiment = Positive, confidence = min 0.99 (0.875 + 0.03)\<rparr>"
proof -
  have gen: "detectSentiment s =
        Some \<lparr>sentiment = emojiSentiment (countEmoji s),
              confidence = min 0.99 (combinedConfidence (countEmoji s)
                (wordConfidence (wordScore (tokens s)) (length (tokens s))) + 0.03)\<rparr> \<and>
      combinedConfidence (countEmoji s)
          (wordConfidence (wordScore (tokens s)) (length (tokens s)))
        < min 0.99 (combinedConfidence (countEmoji s)
            (wordConfidence (wordScore (tokens s)) (length (tokens s))) + 0.03)"
    if "totalEmoji (countEmoji s) > 0"
      "wordSentiment (wordScore (tokens s)) \<noteq> Neutral"
      "wordSentiment (wordScore (tokens s)) = emojiSentiment (countEmoji s)" for s
  proof -
    have "0.6 \<le> wordConfidence (wordScore (tokens s)) (length (tokens s))"
      using wordConfidence_bounds by blast
    from combinedConfidence_bounds [OF this, of "countEmoji s"]
    have "combinedConfidence (countEmoji s)
          (wordConfidence (wordScore (tokens s)) (length (tokens s))) \<le> 0.98" by blast
    then show ?thesis
      using that(2,3) by (simp add: detect_with_emoji [OF that(1)] Let_def min_def)
  qed
  have cc: "combinedConfidence (countEmoji ex_agree)
       (wordConfidence (wordScore (tokens ex_agree)) (length (tokens ex_agree))) = 0.875"
    by (simp add: ex_agree_count ex_agree_tokens score_great wordConfidence_values
        combinedConfidence_def emojiConfidenceBase_def totalEmoji_def)
  have "detectSentiment ex_agree =
      Some \<lparr>sentiment = Positive, confidence = min 0.99 (0.875 + 0.03)\<rparr>"
    using gen [of ex_agree] unfolding cc
    by (simp add: ex_agree_count ex_agree_tokens score_great totalEmoji_def
        wordSentiment_def emojiSentiment_def)
  with gen [of "text"] cc show ?thesis by blast
qed

theorem agreement_bonus_witness:
  "totalEmoji (countEmoji ex_agree) > 0 \<and>
   wordSentiment (wordScore (tokens ex_agree)) \<noteq> Neutral \<and>
   wordSentiment (wordScore (tokens ex_agree)) = emojiSentiment (countEmoji ex_agree) \<and>
   detectSentiment ex_agree = Some \<lparr>sentiment = Positive, confidence = 0.905\<rparr> \<and>
   (0.875 :: real) < 0.905"
  using agreement_bonus [of ex_agree]
  by (simp add: ex_agree_count ex_agree_tokens score_great totalEmoji_def
        wordSentiment_def emojiSentiment_def)

text \<open>
  C5. When an emoji was counted, the word label differs from the dominant emoji label
  and the positive and negative counts differ by at least 1, the result is the
  dominant emoji label with the combined confidence. Three positive emoji followed by
  "terrible" give the label positive.
\<close>

theorem emoji_dominance:
  "(totalEmoji (countEmoji text) > 0 \<and>
      wordSentiment (wordScore (tokens text)) \<noteq> emojiSentiment (countEmoji text) \<and>
      \<bar>int (posEmoji (countEmoji text)) - int (negEmoji (countEmoji text))\<bar> \<ge> 1 \<longrightarrow>
      detectSentiment text =
        Some \<lparr>sentiment = emojiSentiment (countEmoji text),
              confidence = combinedConfidence (countEmoji text)
                (wordConfidence (wordScore (tokens text)) (length (tokens text)))\<rparr>) \<and>
   detectSentiment ex_dominant =
     Some \<lparr>sentiment = Positive,
           confidence = combinedConfidence (countEmoji ex_dominant)
             (wordConfidence (wordScore (tokens ex_dominant)) (length (tokens ex_dominant)))\<rparr>"
proof -
  have gen: "detectSentiment s =
        Some \<lparr>sentiment = emojiSentiment (countEmoji s),
              confidence = combinedConfidence (countEmoji s)
                (wordConfidence (wordScore (tokens s)) (length (tokens s)))\<rparr>"
    if "totalEmoji (countEmoji s) > 0"
      "wordSentiment (wordScore (tokens s)) \<noteq> emojiSentiment (countEmoji s)"
      "\<bar>int (posEmoji (countEmoji s)) - int (negEmoji (countEmoji s))\<bar> \<ge> 1" for s
    using that(2,3) by (simp add: detect_with_emoji [OF that(1)] Let_def)
  have "detectSentiment ex_dominant =
      Some \<lparr>sentiment = Positive,
            confidence = combinedConfidence (countEmoji ex_dominant)
              (wordConfidence (wordScore (tokens ex_dominant)) (length (tokens ex_dominant)))\<rparr>"
    using gen [of ex_dominant]
    by (simp add: ex_dominant_count ex_dominant_tokens score_terrible totalEmoji_def
        wordSentiment_def emojiSentiment_def)
  with gen [of "text"] show ?thesis by blast
qed

theorem emoji_dominance_witness:
  "totalEmoji (countEmoji ex_dominant) > 0 \<and>
   wordSentiment (wordScore (tokens ex_dominant)) = Negative \<and>
   emojiSentiment (countEmoji ex_dominant) = Positive \<and>
   \<bar>int (posEmoji (countEmoji ex_dominant)) - int (negEmoji (countEmoji ex_dominant))\<bar> = 3 \<and>
   detectSentiment ex_dominant = Some \<lparr>sentiment = Positive, confidence = 0.95\<rparr>"
  using emoji_dominance [of ex_dominant]
  by (simp add: ex_dominant_count ex_dominant_tokens score_terrible totalEmoji_def
        wordSentiment_def emojiSentiment_def wordConfidence_values combinedConfidence_def
        emojiConfidenceBase_def)

text \<open>
  C6. A lexicon word whose immediate predecessor is a negation token contributes its
  base weight with the sign flipped: \<open>- 1\<close> for a positive word, \<open>1\<close> for a negative
  word. The score of "not good" is \<open>- 1\<close> and that of "not bad" is \<open>1\<close>.
\<close>

theorem negation_flips_sign:
  "(0 < i \<and> toks ! (i - 1) \<in> set negations \<longrightarrow>
      (toks ! i \<in> set positiveWords \<longrightarrow> weight toks i = - 1) \<and>
      (toks ! i \<in> set negativeWords \<longrightarrow> weight toks i = 1)) \<and>
   wordScore (tokens (lit ''not good'')) = - 1 \<and>
   wordScore (tokens (lit ''not bad'')) = 1"
proof -
  have "(toks ! i \<in> set positiveWords \<longrightarrow> weight toks i = - 1) \<and>
      (toks ! i \<in> set negativeWords \<longrightarrow> weight toks i = 1)"
    if "0 < i" "toks ! (i - 1) \<in> set negations"
    using that negation_not_intensifier [OF that(2)] positive_not_negative [of "toks ! i"]
    by (auto simp: weight_def Let_def)
  then show ?thesis
    by (simp add: tokens_not_good tokens_not_bad score_not_good score_not_bad)
qed

theorem negation_flips_sign_witness:
  "(0::nat) < 1 \<and> tokens (lit ''not good'') ! (1 - 1) \<in> set negations \<and>
   tokens (lit ''not good'') ! 1 \<in> set positiveWords \<and>
   weight (tokens (lit ''not good'')) 1 = - 1 \<and>
   tokens (lit ''not bad'') ! (1 - 1) \<in> set negations \<and>
   tokens (lit ''not bad'') ! 1 \<in> set negativeWords \<and>
   weight (tokens (lit ''not bad'')) 1 = 1"
proof -
  have m: "lit ''not'' \<in> set negations" "lit ''good'' \<in> set positiveWords"
      "lit ''bad'' \<in> set negativeWords"
    by (simp_all add: lexicon_defs)
  from negation_flips_sign [of 1 "tokens (lit ''not good'')"]
       negation_flips_sign [of 1 "tokens (lit ''not bad'')"] m
  show ?thesis
    by (simp add: tokens_not_good tokens_not_bad)
qed

text \<open>
  C7. A lexicon word whose immediate predecessor is an intensifier token contributes
  its base weight times 1.6, with the sign kept: \<open>1.6\<close> for a positive word, \<open>- 1.6\<close>
  for a negative word. The score of "very good" is 1.6, strictly above the positive
  score 1 of "good".
\<close>

theorem intensifier_scales:
  "(0 < i \<and> toks ! (i - 1) \<in> set intensifiers \<longrightarrow>
      (toks ! i \<in> set positiveWords \<longrightarrow> weight toks i = 1.6) \<and>
      (toks ! i \<in> set negativeWords \<longrightarrow> weight toks i = - 1.6)) \<and>
   wordScore (tokens (lit ''good'')) = 1 \<and>
   wordScore (tokens (lit ''very good'')) = 1.6 \<and>
   0 < wordScore (tokens (lit ''good'')) \<and>
   wordScore (tokens (lit ''good'')) < wordScore (tokens (lit ''very good''))"
proof -
  have "(toks ! i \<in> set positiveWords \<longrightarrow> weight toks i = 1.6) \<and>
      (toks ! i \<in> set negativeWords \<longrightarrow> weight toks i = - 1.6)"
    if "0 < i" "toks ! (i - 1) \<in> set intensifiers"
    using that negation_not_intensifier [of "toks ! (i - 1)"]
      positive_not_negative [of "toks ! i"]
    by (auto simp: weight_def Let_def)
  then show ?thesis
    by (simp add: tokens_good tokens_very_good score_good score_very_good)
qed

theorem intensifier_scales_witness:
  "(0::nat) < 1 \<and> tokens (lit ''very good'') ! (1 - 1) \<in> set intensifiers \<and>
   tokens (lit ''very good'') ! 1 \<in> set positiveWords \<and>
   weight (tokens (lit ''very good'')) 1 = 1.6"
proof -
  have m: "lit ''very'' \<in> set intensifiers" "lit ''good'' \<in> set positiveWords"
    by (simp_all add: lexicon_defs)
  from intensifier_scales [of 1 "tokens (lit ''very good'')"] m
  show ?thesis
    by (simp add: tokens_very_good)
qed

text \<open>
  C8. What a token adds to the score depends on the token, on the single token before
  it, and on whether there is one: two positions that agree on these add the same
  amount, whatever stands further to the left. For "not very good" the word "good" at
  index 2 adds 1.6, the intensifier "very" being applied and the negation "not" not;
  the score is 1.6 and the word label is positive.
\<close>

theorem only_previous_token_inspected:
  "((0 < i \<longleftrightarrow> 0 < j) \<and> toks ! i = toks' ! j \<and> toks ! (i - 1) = toks' ! (j - 1) \<longrightarrow>
      weight toks i = weight toks' j) \<and>
   tokens (lit ''not very good'') = [lit ''not'', lit ''very'', lit ''good''] \<and>
   weight (tokens (lit ''not very good'')) 2 = 1.6 \<and>
   wordScore (tokens (lit ''not very good'')) = 1.6 \<and>
   wordSentiment (wordScore (tokens (lit ''not very good''))) = Positive"
proof -
  have "weight toks i = weight toks' j"
    if "0 < i \<longleftrightarrow> 0 < j" "toks ! i = toks' ! j" "toks ! (i - 1) = toks' ! (j - 1)"
    using that by (simp add: weight_def Let_def)
  moreover have "weight [lit ''not'', lit ''very'', lit ''good''] 2 = 1.6"
    by (simp add: score_defs)
  ultimately show ?thesis
    by (simp add: tokens_not_very_good score_not_very_good wordSentiment_def)
qed

theorem only_previous_token_inspected_witness:
  "((0::nat) < 2 \<longleftrightarrow> (0::nat) < 1) \<and>
   tokens (lit ''not very good'') ! 2 = tokens (lit ''very good'') ! 1 \<and>
   tokens (lit ''not very good'') ! (2 - 1) = tokens (lit ''very good'') ! (1 - 1) \<and>
   weight (tokens (lit ''not very good'')) 2 = weight (tokens (lit ''very good'')) 1"
  using only_previous_token_inspected
    [of 2 1 "tokens (lit ''not very good'')" "tokens (lit ''very good'')"]
  by (simp add: tokens_not_very_good tokens_very_good)

text \<open>
  C9. The score is a function of the tokens alone, so the emoji of the input play no
  part in it. If a token list holds no negation token, putting occurrences of
  positive-lexicon words into it, anywhere and in any number, does not lower the score.
\<close>

theorem score_monotone_in_positive_words:
  "addsPositive ts ts' \<Longrightarrow> \<forall>w \<in> set ts. w \<notin> set negations
     \<Longrightarrow> wordScore ts \<le> wordScore ts'"
proof (induction rule: addsPositive.induct)
  case (same ts)
  show ?case by simp
next
  case (ins ts xs ys q)
  have "\<forall>w \<in> set (xs @ ys). w \<notin> set negations"
    using addsPositive_no_negation [OF ins.hyps(1) ins.prems] .
  from wordScore_insert [OF ins.hyps(2) this] ins.IH [OF ins.prems]
  show ?case by simp
qed

theorem score_monotone_in_positive_words_witness:
  "addsPositive (tokens (lit ''very bad'')) (tokens (lit ''very good bad'')) \<and>
   tokens (lit ''very bad'') = [lit ''very'', lit ''bad''] \<and>
   lit ''very'' \<notin> set negations \<and> lit ''bad'' \<notin> set negations \<and>
   wordScore (tokens (lit ''very bad'')) = - 1.6 \<and>
   wordScore (tokens (lit ''very good bad'')) = 0.6 \<and>
   wordScore (tokens (lit ''very bad'')) \<le> wordScore (tokens (lit ''very good bad''))"
proof -
  have g: "lit ''good'' \<in> set positiveWords"
    by (simp add: positiveWords_def)
  have a: "addsPositive (tokens (lit ''very bad'')) (tokens (lit ''very good bad''))"
    unfolding tokens_very_bad tokens_very_good_bad
    using addsPositive.ins [OF addsPositive.same g, of "[lit ''very'']" "[lit ''bad'']"]
    by simp
  have n: "\<forall>w \<in> set (tokens (lit ''very bad'')). w \<notin> set negations"
    unfolding tokens_very_bad by (simp add: negations_def lit_def)
  from score_monotone_in_positive_words [OF a n] a n show ?thesis
    by (simp add: tokens_very_bad tokens_very_good_bad score_very_bad score_very_good_bad)
qed

text \<open>
  C10. The two entries of the emoji sets that are two code points long, U+2764 U+FE0F
  in the positive set and U+2639 U+FE0F in the negative set, are never among the
  pieces that the loop looks up, so no counter moves for them; the input made of the
  first of them alone has no emoji counted, no token, and no result.
\<close>

theorem two_code_point_entries_never_matched:
  "[0x2764, 0xFE0F] \<in> set positiveEmojis \<and> [0x2639, 0xFE0F] \<in> set negativeEmojis \<and>
   (\<forall>text ch. ch \<in> set (Array_from text) \<longrightarrow>
      ch \<noteq> [0x2764, 0xFE0F] \<and> ch \<noteq> [0x2639, 0xFE0F]) \<and>
   totalEmoji (countEmoji [0x2764, 0xFE0F]) = 0 \<and>
   totalEmoji (countEmoji [0x2639, 0xFE0F]) = 0 \<and>
   tokens [0x2764, 0xFE0F] = [] \<and>
   detectSentiment [0x2764, 0xFE0F] = None"
proof -
  have "ch \<noteq> [0x2764, 0xFE0F] \<and> ch \<noteq> [0x2639, 0xFE0F]"
    if "ch \<in> set (Array_from s)" for s ch
    using chunk_shape [OF that] by (auto simp: isHighSurrogate_def)
  moreover have "[0x2764, 0xFE0F] \<in> set positiveEmojis" "[0x2639, 0xFE0F] \<in> set negativeEmojis"
    by (simp_all add: emoji_defs)
  ultimately show ?thesis
    by (simp add: count_heart count_frown totalEmoji_def tokens_heart detect_heart)
qed

theorem two_code_point_entries_never_matched_witness:
  "[0x2764] \<in> set (Array_from [0x2764, 0xFE0F]) \<and>
   [0x2764] \<noteq> [0x2764, 0xFE0F :: code_unit] \<and> [0x2764] \<noteq> [0x2639, 0xFE0F :: code_unit]"
  using two_code_point_entries_never_matched
  by (simp add: isHighSurrogate_def)

end
